theory Spec2Isabelle
  imports Main "HOL-Library.Word"
begin

section \<open>JavaScript values used by the weather handler\<close>

text \<open>
  A JavaScript string is a sequence of UTF-16 code units. Every non-ASCII character
  of \<^verbatim>\<open>server.js\<close> lies in the Basic Multilingual Plane, so each is one code unit,
  written here by its hexadecimal value. \<open>ascii\<close> embeds an ASCII literal.
\<close>

type_synonym jsstring = "16 word list"

definition ascii :: "string \<Rightarrow> jsstring" where
  "ascii s = map of_char s"

text \<open>
  The values that \<^verbatim>\<open>CITY_MAP[cityCode]\<close> can evaluate to. \<^verbatim>\<open>CITY_MAP\<close> is an
  object literal, so a property that is not its own is looked up in
  \<^verbatim>\<open>Object.prototype\<close>: the result is then a built-in function, or (for the
  accessor \<^verbatim>\<open>__proto__\<close>) the prototype object itself.
\<close>

datatype jsvalue =
    Undefined
  | Str jsstring
  | NativeFunction jsstring
  | ObjectPrototype

text \<open>\<^verbatim>\<open>!v\<close> is \<open>\<not> truthy v\<close>.\<close>

fun truthy :: "jsvalue \<Rightarrow> bool" where
  "truthy Undefined = False"
| "truthy (Str s) = (s \<noteq> [])"
| "truthy (NativeFunction n) = True"
| "truthy ObjectPrototype = True"

text \<open>The string a template literal inserts for a value (as Node.js prints it).\<close>

fun ToString :: "jsvalue \<Rightarrow> jsstring" where
  "ToString Undefined = ascii ''undefined''"
| "ToString (Str s) = s"
| "ToString (NativeFunction n) = ascii ''function '' @ n @ ascii ''() { [native code] }''"
| "ToString ObjectPrototype = ascii ''[object Object]''"

section \<open>The city table (server.js, lines 20-54)\<close>

text \<open>The own properties of \<^verbatim>\<open>CITY_MAP\<close>, in source order: 6 special municipalities,
  3 cities and 13 counties, each code with its Chinese administrative name. (The file
  also holds an earlier variant of the same handler, with the first six entries of this
  table only and shorter texts in two messages; the model follows the first variant.)\<close>

definition CITY_MAP :: "(jsstring \<times> jsstring) list" where
  "CITY_MAP =
   [(ascii ''taipei'', [0x81FA, 0x5317, 0x5E02]),
    (ascii ''new_taipei'', [0x65B0, 0x5317, 0x5E02]),
    (ascii ''taoyuan'', [0x6843, 0x5712, 0x5E02]),
    (ascii ''taichung'', [0x81FA, 0x4E2D, 0x5E02]),
    (ascii ''tainan'', [0x81FA, 0x5357, 0x5E02]),
    (ascii ''kaohsiung'', [0x9AD8, 0x96C4, 0x5E02]),
    (ascii ''keelung'', [0x57FA, 0x9686, 0x5E02]),
    (ascii ''hsinchu_city'', [0x65B0, 0x7AF9, 0x5E02]),
    (ascii ''hsinchu_county'', [0x65B0, 0x7AF9, 0x7E23]),
    (ascii ''yilan'', [0x5B9C, 0x862D, 0x7E23]),
    (ascii ''miaoli'', [0x82D7, 0x6817, 0x7E23]),
    (ascii ''changhua'', [0x5F70, 0x5316, 0x7E23]),
    (ascii ''nantou'', [0x5357, 0x6295, 0x7E23]),
    (ascii ''yunlin'', [0x96F2, 0x6797, 0x7E23]),
    (ascii ''chiayi_city'', [0x5609, 0x7FA9, 0x5E02]),
    (ascii ''chiayi_county'', [0x5609, 0x7FA9, 0x7E23]),
    (ascii ''pingtung'', [0x5C4F, 0x6771, 0x7E23]),
    (ascii ''hualien'', [0x82B1, 0x84EE, 0x7E23]),
    (ascii ''taitung'', [0x81FA, 0x6771, 0x7E23]),
    (ascii ''penghu'', [0x6F8E, 0x6E56, 0x7E23]),
    (ascii ''kinmen'', [0x91D1, 0x9580, 0x7E23]),
    (ascii ''lienchiang'', [0x9023, 0x6C5F, 0x7E23])]"

text \<open>The properties every object literal inherits from \<^verbatim>\<open>Object.prototype\<close>
  (Node.js): eleven built-in functions and the accessor \<^verbatim>\<open>__proto__\<close>.\<close>

definition Object_prototype :: "(jsstring \<times> jsvalue) list" where
  "Object_prototype =
   [(ascii ''constructor'', NativeFunction (ascii ''Object'')),
    (ascii ''__defineGetter__'', NativeFunction (ascii ''__defineGetter__'')),
    (ascii ''__defineSetter__'', NativeFunction (ascii ''__defineSetter__'')),
    (ascii ''hasOwnProperty'', NativeFunction (ascii ''hasOwnProperty'')),
    (ascii ''__lookupGetter__'', NativeFunction (ascii ''__lookupGetter__'')),
    (ascii ''__lookupSetter__'', NativeFunction (ascii ''__lookupSetter__'')),
    (ascii ''isPrototypeOf'', NativeFunction (ascii ''isPrototypeOf'')),
    (ascii ''propertyIsEnumerable'', NativeFunction (ascii ''propertyIsEnumerable'')),
    (ascii ''toString'', NativeFunction (ascii ''toString'')),
    (ascii ''valueOf'', NativeFunction (ascii ''valueOf'')),
    (ascii ''__proto__'', ObjectPrototype),
    (ascii ''toLocaleString'', NativeFunction (ascii ''toLocaleString''))]"

text \<open>\<^verbatim>\<open>CITY_MAP[cityCode]\<close> (line 65): own property first, then the prototype,
  else \<^verbatim>\<open>undefined\<close>. Property names are compared code unit by code unit.\<close>

definition CITY_MAP_get :: "jsstring \<Rightarrow> jsvalue" where
  "CITY_MAP_get k =
     (case map_of CITY_MAP k of
        Some name \<Rightarrow> Str name
      | None \<Rightarrow> (case map_of Object_prototype k of Some v \<Rightarrow> v | None \<Rightarrow> Undefined))"

section \<open>The upstream payload and the normalized forecast\<close>

text \<open>
  The payload of the CWA dataset F-C0032-001, typed by its schema: every field the
  handler reads is present and every \<^verbatim>\<open>parameterName\<close> is a string; the arrays
  (\<^verbatim>\<open>location\<close>, \<^verbatim>\<open>weatherElement\<close>, \<^verbatim>\<open>time\<close>) have any length. A time entry and a
  forecast both carry \<^verbatim>\<open>startTime\<close> and \<^verbatim>\<open>endTime\<close>.
\<close>

record interval =
  startTime :: jsstring
  endTime :: jsstring

record cwa_parameter =
  parameterName :: jsstring

record time_entry = interval +
  parameter :: cwa_parameter

record weather_element =
  elementName :: jsstring
  time :: "time_entry list"

record location_data =
  locationName :: jsstring
  weatherElement :: "weather_element list"

record cwa_records =
  datasetDescription :: jsstring
  location :: "location_data list"

record forecast = interval +
  weather :: jsstring
  rain :: jsstring
  minTemp :: jsstring
  maxTemp :: jsstring
  comfort :: jsstring
  windSpeed :: jsstring

record weather_data =
  city :: jsstring
  cityCode :: jsstring
  updateTime :: jsstring
  forecasts :: "forecast list"

section \<open>Exceptions, requests and responses\<close>

text \<open>
  What the \<^verbatim>\<open>try\<close> block can throw: a \<^verbatim>\<open>TypeError\<close> (a property read on
  \<^verbatim>\<open>undefined\<close> or \<^verbatim>\<open>null\<close>), or the error axios rejects with, whose
  \<^verbatim>\<open>response\<close> is present when the upstream answered with a non-success status and
  absent on a transport failure. \<^verbatim>\<open>error.response.data\<close> is the upstream's error
  body: \<open>NullBody\<close> when it is \<^verbatim>\<open>null\<close> (the JSON body \<^verbatim>\<open>null\<close>), otherwise
  \<open>Body\<close> with its \<^verbatim>\<open>message\<close> property, \<open>None\<close> when the body has none.
\<close>

datatype error_body =
    NullBody
  | Body "jsstring option"

record upstream_response =
  response_status :: nat
  response_data :: error_body

datatype exception =
    TypeError
  | AxiosError "upstream_response option"

text \<open>The outbound call (lines 85-93): the URL and the two query parameters.\<close>

record axios_request =
  url :: jsstring
  Authorization :: jsstring
  locationName_param :: jsvalue

text \<open>A JSON response body: an absent key is \<open>None\<close>.\<close>

record json_body =
  success :: "bool option"
  error :: "jsstring option"
  message :: "jsstring option"
  data :: "weather_data option"

record http_response =
  status :: nat
  body :: json_body

section \<open>Normalization (server.js, lines 114-154)\<close>

text \<open>The \<^verbatim>\<open>switch\<close> on \<^verbatim>\<open>element.elementName\<close> (lines 131-150); \<open>v\<close> is
  \<^verbatim>\<open>element.time[i].parameter\<close>. An unlisted name falls through unchanged.\<close>

definition switch_elementName :: "jsstring \<Rightarrow> cwa_parameter \<Rightarrow> forecast \<Rightarrow> forecast" where
  "switch_elementName nm v fc =
     (if nm = ascii ''Wx'' then fc\<lparr>weather := parameterName v\<rparr>
      else if nm = ascii ''PoP'' then fc\<lparr>rain := parameterName v @ ascii ''%''\<rparr>
      else if nm = ascii ''MinT'' then fc\<lparr>minTemp := parameterName v @ [0x00B0] @ ascii ''C''\<rparr>
      else if nm = ascii ''MaxT'' then fc\<lparr>maxTemp := parameterName v @ [0x00B0] @ ascii ''C''\<rparr>
      else if nm = ascii ''CI'' then fc\<lparr>comfort := parameterName v\<rparr>
      else if nm = ascii ''WS'' then fc\<lparr>windSpeed := parameterName v\<rparr>
      else fc)"

text \<open>The callback of \<^verbatim>\<open>weatherElements.forEach\<close> (lines 129-151). Reading
  \<^verbatim>\<open>element.time[i].parameter\<close> throws when \<^verbatim>\<open>element.time[i]\<close> is undefined,
  whatever the element's name.\<close>

definition forEach_callback :: "nat \<Rightarrow> weather_element \<Rightarrow> forecast \<Rightarrow> exception + forecast" where
  "forEach_callback i element fc =
     (if i < length (time element)
      then Inr (switch_elementName (elementName element) (parameter (time element ! i)) fc)
      else Inl TypeError)"

fun forEach :: "nat \<Rightarrow> weather_element list \<Rightarrow> forecast \<Rightarrow> exception + forecast" where
  "forEach i [] fc = Inr fc"
| "forEach i (element # rest) fc =
     (case forEach_callback i element fc of
        Inl e \<Rightarrow> Inl e
      | Inr fc' \<Rightarrow> forEach i rest fc')"

text \<open>The forecast object of lines 118-127, from \<^verbatim>\<open>weatherElements[0].time[i]\<close>.\<close>

definition new_forecast :: "time_entry \<Rightarrow> forecast" where
  "new_forecast t =
     \<lparr>startTime = startTime t, endTime = endTime t,
      weather = [], rain = [], minTemp = [], maxTemp = [], comfort = [], windSpeed = []\<rparr>"

text \<open>The loop \<^verbatim>\<open>for (let i = 0; i < timeCount; i++)\<close> (lines 117-154); \<open>acc\<close> is
  \<^verbatim>\<open>weatherData.forecasts\<close>, to which each finished forecast is pushed.\<close>

function for_loop ::
  "weather_element list \<Rightarrow> nat \<Rightarrow> nat \<Rightarrow> forecast list \<Rightarrow> exception + forecast list" where
  "for_loop weatherElements timeCount i acc =
     (if i < timeCount then
        (case weatherElements of
           [] \<Rightarrow> Inl TypeError
         | e0 # _ \<Rightarrow>
             if i < length (time e0) then
               (case forEach i weatherElements (new_forecast (time e0 ! i)) of
                  Inl e \<Rightarrow> Inl e
                | Inr fc \<Rightarrow> for_loop weatherElements timeCount (Suc i) (acc @ [fc]))
             else Inl TypeError)
      else Inr acc)"
  by pat_completeness auto
termination
  by (relation "measure (\<lambda>(weatherElements, timeCount, i, acc). timeCount - i)") auto

text \<open>Lines 114-154: \<^verbatim>\<open>weatherElements[0].time.length\<close> throws on an empty
  \<^verbatim>\<open>weatherElement\<close> array.\<close>

definition normalize :: "location_data \<Rightarrow> exception + forecast list" where
  "normalize locationData =
     (case weatherElement locationData of
        [] \<Rightarrow> Inl TypeError
      | e0 # _ \<Rightarrow> for_loop (weatherElement locationData) (length (time e0)) 0 [])"

section \<open>The request handler (server.js, lines 59-175)\<close>

definition CWA_API_BASE_URL :: jsstring where
  "CWA_API_BASE_URL = ascii ''https://opendata.cwa.gov.tw/api''"

text \<open>The arguments of \<^verbatim>\<open>axios.get\<close> (lines 85-93): the dataset URL, the credential
  and the looked-up location name.\<close>

definition forecast_request :: "jsstring \<Rightarrow> jsvalue \<Rightarrow> axios_request" where
  "forecast_request k targetLocation =
     \<lparr>url = CWA_API_BASE_URL @ ascii ''/v1/rest/datastore/F-C0032-001'',
      Authorization = k, locationName_param = targetLocation\<rparr>"

text \<open>The JSON bodies of the failure responses, with their Chinese texts.\<close>

definition invalid_city_body :: "jsstring \<Rightarrow> json_body" where
  "invalid_city_body c =
     \<lparr>success = Some False,
      error = Some [0x53C3, 0x6578, 0x932F, 0x8AA4],
      message = Some ([0x4E0D, 0x652F, 0x63F4] @ ascii '' '' @ [0x0027] @ c @
        [0x0027, 0x3002, 0x8ACB, 0x4F7F, 0x7528, 0x6B63, 0x78BA, 0x7684, 0x57CE, 0x5E02, 0x4EE3, 0x78BC]
        @ ascii '' ('' @ [0x4F8B, 0x5982] @ ascii '': taipei, hualien, penghu...)''),
      data = None\<rparr>"

definition misconfigured_body :: json_body where
  "misconfigured_body =
     \<lparr>success = None,
      error = Some [0x4F3A, 0x670D, 0x5668, 0x8A2D, 0x5B9A, 0x932F, 0x8AA4],
      message = Some ([0x8ACB, 0x5728] @ ascii '' .env '' @ [0x6A94, 0x6848, 0x4E2D, 0x8A2D, 0x5B9A]
        @ ascii '' CWA_API_KEY''),
      data = None\<rparr>"

definition no_data_body :: "jsvalue \<Rightarrow> json_body" where
  "no_data_body targetLocation =
     \<lparr>success = None,
      error = Some [0x67E5, 0x7121, 0x8CC7, 0x6599],
      message = Some ([0x7121, 0x6CD5, 0x53D6, 0x5F97] @ ascii '' '' @ ToString targetLocation @
        ascii '' '' @ [0x7684, 0x5929, 0x6C23, 0x8CC7, 0x6599, 0xFF0C, 0x8ACB, 0x78BA, 0x8A8D]
        @ ascii '' CWA API '' @ [0x4F86, 0x6E90, 0x662F, 0x5426, 0x6B63, 0x5E38, 0x3002]),
      data = None\<rparr>"

definition default_upstream_message :: jsstring where
  "default_upstream_message = [0x7121, 0x6CD5, 0x53D6, 0x5F97, 0x5929, 0x6C23, 0x8CC7, 0x6599]"

definition upstream_error_body :: "jsstring \<Rightarrow> json_body" where
  "upstream_error_body m =
     \<lparr>success = None,
      error = Some (ascii ''CWA API '' @ [0x932F, 0x8AA4]),
      message = Some m,
      data = None\<rparr>"

definition server_error_body :: json_body where
  "server_error_body =
     \<lparr>success = None,
      error = Some [0x4F3A, 0x670D, 0x5668, 0x932F, 0x8AA4],
      message = Some [0x7121, 0x6CD5, 0x53D6, 0x5F97, 0x5929, 0x6C23, 0x8CC7, 0x6599, 0xFF0C,
        0x8ACB, 0x7A0D, 0x5F8C, 0x518D, 0x8A66],
      data = None\<rparr>"

definition not_found_body :: json_body where
  "not_found_body =
     \<lparr>success = None,
      error = Some [0x627E, 0x4E0D, 0x5230, 0x6B64, 0x8DEF, 0x5F91],
      message = Some [0x8ACB, 0x78BA, 0x8A8D, 0x7DB2, 0x5740, 0x662F, 0x5426, 0x6B63, 0x78BA],
      data = None\<rparr>"

text \<open>
  The \<^verbatim>\<open>try\<close> block (lines 60-159). \<open>CWA_API_KEY\<close> is \<^verbatim>\<open>process.env.CWA_API_KEY\<close>
  (\<open>None\<close> when the variable is unset; the empty string is falsy too), \<open>axios_get\<close>
  is the upstream's answer to a request, \<open>city_param\<close> is \<^verbatim>\<open>req.params.city\<close>. The result
  is the response sent or the exception thrown, with the outbound calls made so far.
  \<^verbatim>\<open>res.json\<close> without \<^verbatim>\<open>res.status\<close> sends status 200.
\<close>

definition try_block ::
  "jsstring option \<Rightarrow> (axios_request \<Rightarrow> exception + cwa_records) \<Rightarrow> jsstring
     \<Rightarrow> (exception + http_response) \<times> axios_request list" where
  "try_block CWA_API_KEY axios_get city_param =
     (let targetLocation = CITY_MAP_get city_param in
      if \<not> truthy targetLocation then
        (Inr \<lparr>status = 400, body = invalid_city_body city_param\<rparr>, [])
      else
        (case CWA_API_KEY of
           None \<Rightarrow> (Inr \<lparr>status = 500, body = misconfigured_body\<rparr>, [])
         | Some k \<Rightarrow>
             if k = [] then (Inr \<lparr>status = 500, body = misconfigured_body\<rparr>, [])
             else
               (let rq = forecast_request k targetLocation
                in case axios_get rq of
                     Inl e \<Rightarrow> (Inl e, [rq])
                   | Inr records \<Rightarrow>
                       (case location records of
                          [] \<Rightarrow> (Inr \<lparr>status = 404, body = no_data_body targetLocation\<rparr>, [rq])
                        | locationData # _ \<Rightarrow>
                            (case normalize locationData of
                               Inl e \<Rightarrow> (Inl e, [rq])
                             | Inr fs \<Rightarrow>
                                 (Inr \<lparr>status = 200,
                                       body = \<lparr>success = Some True, error = None, message = None,
                                               data = Some \<lparr>city = locationName locationData,
                                                            cityCode = city_param,
                                                            updateTime = datasetDescription records,
                                                            forecasts = fs\<rparr>\<rparr>\<rparr>,
                                  [rq]))))))"

text \<open>The \<^verbatim>\<open>catch\<close> block (lines 160-174). Line 166 reads
  \<^verbatim>\<open>error.response.data.message\<close>: on a \<^verbatim>\<open>null\<close> body the read throws a
  \<^verbatim>\<open>TypeError\<close> inside the \<^verbatim>\<open>catch\<close>, before \<^verbatim>\<open>json\<close> is called, so no
  response is sent. \<^verbatim>\<open>a || b\<close> takes \<open>b\<close> when the message is absent or the empty
  string.\<close>

definition catch_block :: "exception \<Rightarrow> exception + http_response" where
  "catch_block e =
     (case e of
        AxiosError (Some r) \<Rightarrow>
          (case response_data r of
             NullBody \<Rightarrow> Inl TypeError
           | Body msg \<Rightarrow>
               Inr \<lparr>status = response_status r,
                    body = upstream_error_body
                      (case msg of
                         None \<Rightarrow> default_upstream_message
                       | Some m \<Rightarrow> if m = [] then default_upstream_message else m)\<rparr>)
      | _ \<Rightarrow> Inr \<lparr>status = 500, body = server_error_body\<rparr>)"

text \<open>The handler as a whole: the response it sends, or the exception its promise
  rejects with when the \<^verbatim>\<open>catch\<close> block itself throws (then no response is sent),
  and the outbound calls made.\<close>

definition getCityWeather ::
  "jsstring option \<Rightarrow> (axios_request \<Rightarrow> exception + cwa_records) \<Rightarrow> jsstring
     \<Rightarrow> (exception + http_response) \<times> axios_request list" where
  "getCityWeather CWA_API_KEY axios_get city_param =
     (case try_block CWA_API_KEY axios_get city_param of
        (Inr res, calls) \<Rightarrow> (Inr res, calls)
      | (Inl e, calls) \<Rightarrow> (catch_block e, calls))"

text \<open>The last middleware (lines 211-216), reached by a request no route matched.\<close>

definition not_found_handler :: http_response where
  "not_found_handler = \<lparr>status = 404, body = not_found_body\<rparr>"

text \<open>Folding the \<^verbatim>\<open>switch\<close> over the elements at interval \<open>i\<close>, and the elements
  carrying a given name.\<close>

abbreviation assign :: "nat \<Rightarrow> weather_element \<Rightarrow> forecast \<Rightarrow> forecast" where
  "assign i e \<equiv> switch_elementName (elementName e) (parameter (time e ! i))"

abbreviation tagged :: "jsstring \<Rightarrow> weather_element list \<Rightarrow> weather_element list" where
  "tagged t es \<equiv> filter (\<lambda>e. elementName e = t) es"

section \<open>Sample payloads and upstream behaviours\<close>

text \<open>Two consecutive twelve-hour intervals, and location records built from them: one
  with the six recognized elements, one repeating a name, one with two elements only, two
  with an element the handler does not know, and records whose time series differ in
  length. The upstream functions answer every request the same way.\<close>

definition morning :: "jsstring \<Rightarrow> time_entry" where
  "morning p =
     \<lparr>startTime = ascii ''2024-05-01 06:00:00'', endTime = ascii ''2024-05-01 18:00:00'',
      parameter = \<lparr>parameterName = p\<rparr>\<rparr>"

definition evening :: "jsstring \<Rightarrow> time_entry" where
  "evening p =
     \<lparr>startTime = ascii ''2024-05-01 18:00:00'', endTime = ascii ''2024-05-02 06:00:00'',
      parameter = \<lparr>parameterName = p\<rparr>\<rparr>"

definition example_location :: location_data where
  "example_location =
     \<lparr>locationName = [0x81FA, 0x5317, 0x5E02],
      weatherElement =
       [\<lparr>elementName = ascii ''Wx'', time = [morning (ascii ''sunny''), evening (ascii ''cloudy'')]\<rparr>,
        \<lparr>elementName = ascii ''PoP'', time = [morning (ascii ''20''), evening (ascii ''30'')]\<rparr>,
        \<lparr>elementName = ascii ''MinT'', time = [morning (ascii ''15''), evening (ascii ''14'')]\<rparr>,
        \<lparr>elementName = ascii ''CI'', time = [morning (ascii ''mild''), evening (ascii ''cool'')]\<rparr>,
        \<lparr>elementName = ascii ''MaxT'', time = [morning (ascii ''22''), evening (ascii ''19'')]\<rparr>,
        \<lparr>elementName = ascii ''WS'', time = [morning (ascii ''3''), evening (ascii ''4'')]\<rparr>]\<rparr>"

definition duplicate_location :: location_data where
  "duplicate_location =
     \<lparr>locationName = [0x81FA, 0x5317, 0x5E02],
      weatherElement =
       [\<lparr>elementName = ascii ''PoP'', time = [morning (ascii ''10''), evening (ascii ''20'')]\<rparr>,
        \<lparr>elementName = ascii ''Wx'', time = [morning (ascii ''sunny''), evening (ascii ''cloudy'')]\<rparr>,
        \<lparr>elementName = ascii ''PoP'', time = [morning (ascii ''70''), evening (ascii ''80'')]\<rparr>]\<rparr>"

definition partial_location :: location_data where
  "partial_location =
     \<lparr>locationName = [0x81FA, 0x5317, 0x5E02],
      weatherElement =
       [\<lparr>elementName = ascii ''Wx'', time = [morning (ascii ''sunny''), evening (ascii ''cloudy'')]\<rparr>,
        \<lparr>elementName = ascii ''PoP'', time = [morning (ascii ''20''), evening (ascii ''30'')]\<rparr>]\<rparr>"

definition extended_location :: location_data where
  "extended_location =
     \<lparr>locationName = [0x81FA, 0x5317, 0x5E02],
      weatherElement =
       [\<lparr>elementName = ascii ''Wx'', time = [morning (ascii ''sunny''), evening (ascii ''cloudy'')]\<rparr>,
        \<lparr>elementName = ascii ''UVI'', time = [morning (ascii ''7''), evening (ascii ''0'')]\<rparr>,
        \<lparr>elementName = ascii ''PoP'', time = [morning (ascii ''20''), evening (ascii ''30'')]\<rparr>]\<rparr>"

definition longer_location :: location_data where
  "longer_location =
     \<lparr>locationName = [0x81FA, 0x5317, 0x5E02],
      weatherElement =
       [\<lparr>elementName = ascii ''Wx'', time = [morning (ascii ''sunny'')]\<rparr>,
        \<lparr>elementName = ascii ''PoP'', time = [morning (ascii ''20''), evening (ascii ''30'')]\<rparr>]\<rparr>"

definition shorter_location :: location_data where
  "shorter_location =
     \<lparr>locationName = [0x81FA, 0x5317, 0x5E02],
      weatherElement =
       [\<lparr>elementName = ascii ''Wx'', time = [morning (ascii ''sunny''), evening (ascii ''cloudy'')]\<rparr>,
        \<lparr>elementName = ascii ''PoP'', time = [morning (ascii ''20'')]\<rparr>]\<rparr>"

definition empty_location :: location_data where
  "empty_location = \<lparr>locationName = [0x81FA, 0x5317, 0x5E02], weatherElement = []\<rparr>"

definition upstream_unauthorized :: "axios_request \<Rightarrow> exception + cwa_records" where
  "upstream_unauthorized rq =
     Inl (AxiosError (Some \<lparr>response_status = 401, response_data = Body (Some (ascii ''Unauthorized''))\<rparr>))"

definition upstream_empty_message :: "axios_request \<Rightarrow> exception + cwa_records" where
  "upstream_empty_message rq =
     Inl (AxiosError (Some \<lparr>response_status = 503, response_data = Body (Some [])\<rparr>))"

definition upstream_null_body :: "axios_request \<Rightarrow> exception + cwa_records" where
  "upstream_null_body rq =
     Inl (AxiosError (Some \<lparr>response_status = 502, response_data = NullBody\<rparr>))"

definition upstream_unreachable :: "axios_request \<Rightarrow> exception + cwa_records" where
  "upstream_unreachable rq = Inl (AxiosError None)"

definition upstream_returns :: "location_data list \<Rightarrow> axios_request \<Rightarrow> exception + cwa_records" where
  "upstream_returns locs rq = Inr \<lparr>datasetDescription = ascii ''36h forecast'', location = locs\<rparr>"

definition changed_location :: location_data where
  "changed_location =
     \<lparr>locationName = [0x81FA, 0x5317, 0x5E02],
      weatherElement =
       [\<lparr>elementName = ascii ''Wx'', time = [morning (ascii ''sunny''), evening (ascii ''cloudy'')]\<rparr>,
        \<lparr>elementName = ascii ''UVI'', time = [morning (ascii ''99''), evening (ascii ''99'')]\<rparr>,
        \<lparr>elementName = ascii ''PoP'', time = [morning (ascii ''20''), evening (ascii ''30'')]\<rparr>]\<rparr>"

section \<open>Strings\<close>

lemma of_char_word_eq_iff: "(of_char c :: 16 word) = of_char d \<longleftrightarrow> c = d"
proof -
  have lt: "of_char x < (2::nat) ^ 16" for x
    by (rule less_trans [OF nat_of_char_less_256]) simp
  have "(of_char c :: 16 word) = of_char d \<longleftrightarrow>
        (word_of_nat (of_char c) :: 16 word) = word_of_nat (of_char d)"
    by (simp add: of_nat_of_char)
  also have "\<dots> \<longleftrightarrow> (of_char c :: nat) = of_char d"
    using lt [of c] lt [of d] by (simp add: word_of_nat_eq_iff take_bit_nat_eq_self)
  finally show ?thesis by simp
qed

lemma ascii_eq_iff: "ascii s = ascii t \<longleftrightarrow> s = t"
  unfolding ascii_def
  by (rule inj_map_eq_map) (simp add: inj_def of_char_word_eq_iff)

lemma ascii_Nil_iff: "ascii s = [] \<longleftrightarrow> s = []"
  by (simp add: ascii_def)

lemma ascii_append: "ascii s @ ascii t = ascii (s @ t)"
  by (simp add: ascii_def)

lemmas ex_defs = example_location_def duplicate_location_def partial_location_def
  extended_location_def longer_location_def shorter_location_def empty_location_def
  morning_def evening_def

lemmas ev = ex_defs ascii_eq_iff ascii_Nil_iff

section \<open>The loops\<close>

text \<open>\<^verbatim>\<open>forEach\<close> completes exactly when every element has an entry at index \<open>i\<close>;
  the only exception it raises is a \<^verbatim>\<open>TypeError\<close>.\<close>

lemma forEach_ok:
  "\<forall>e\<in>set es. i < length (time e) \<Longrightarrow> forEach i es fc = Inr (fold (assign i) es fc)"
  by (induction es arbitrary: fc) (simp_all add: forEach_callback_def)

lemma forEach_fail:
  "\<exists>e\<in>set es. \<not> i < length (time e) \<Longrightarrow> forEach i es fc = Inl TypeError"
  by (induction es arbitrary: fc) (auto simp: forEach_callback_def)

lemma forEach_error: "forEach i es fc = Inl x \<Longrightarrow> x = TypeError"
  by (induction es arbitrary: fc) (auto simp: forEach_callback_def split: if_splits)

text \<open>When no element is shorter than the bound, the loop pushes one forecast per index.\<close>

lemma for_loop_ok:
  "\<forall>e\<in>set (e0 # rest). n \<le> length (time e) \<Longrightarrow>
   for_loop (e0 # rest) n i acc =
     Inr (acc @ map (\<lambda>j. fold (assign j) (e0 # rest) (new_forecast (time e0 ! j))) [i..<n])"
proof (induction "n - i" arbitrary: i acc)
  case 0
  then show ?case by simp
next
  case (Suc d)
  then have lt: "i < n" and d: "d = n - Suc i" by auto
  have all: "\<forall>e\<in>set (e0 # rest). i < length (time e)"
    using Suc.prems lt by fastforce
  have step: "for_loop (e0 # rest) n i acc =
      for_loop (e0 # rest) n (Suc i) (acc @ [fold (assign i) (e0 # rest) (new_forecast (time e0 ! i))])"
    using lt all forEach_ok [OF all, of "new_forecast (time e0 ! i)"]
    by (subst for_loop.simps) simp
  show ?case
    using Suc.hyps(1) [OF d Suc.prems] lt
    by (simp add: step upt_conv_Cons del: for_loop.simps fold_simps)
qed

text \<open>An element shorter than the bound stops the loop with a \<^verbatim>\<open>TypeError\<close>.\<close>

lemma for_loop_fail:
  "e \<in> set es \<Longrightarrow> i \<le> length (time e) \<Longrightarrow> length (time e) < n \<Longrightarrow>
   for_loop es n i acc = Inl TypeError"
proof (induction "length (time e) - i" arbitrary: i acc)
  case 0
  then have "i = length (time e)" by simp
  with 0 have bad: "\<exists>x\<in>set es. \<not> i < length (time x)" by auto
  show ?case
    using 0 forEach_fail [OF bad]
    by (subst for_loop.simps) (auto split: list.splits)
next
  case (Suc d)
  then have lt: "i < length (time e)" "i < n" by auto
  show ?case
  proof (cases es)
    case Nil
    with Suc show ?thesis by simp
  next
    case (Cons e0 rest)
    show ?thesis
    proof (cases "i < length (time e0)")
      case False
      with Cons lt show ?thesis by (subst for_loop.simps) simp
    next
      case True
      show ?thesis
      proof (cases "forEach i es (new_forecast (time e0 ! i))")
        case (Inl x)
        with forEach_error [OF Inl] Cons lt True show ?thesis
          by (subst for_loop.simps) simp
      next
        case (Inr fc)
        have "for_loop es n (Suc i) (acc @ [fc]) = Inl TypeError"
          using Suc.hyps(1) [of "Suc i"] Suc.hyps(2) Suc.prems lt by simp
        with Inr Cons lt True show ?thesis
          by (subst for_loop.simps) simp
      qed
    qed
  qed
qed

section \<open>What the switch writes\<close>

lemma switch_times:
  "startTime (switch_elementName nm v fc) = startTime fc"
  "endTime (switch_elementName nm v fc) = endTime fc"
  by (simp_all add: switch_elementName_def)

lemma switch_weather:
  "weather (switch_elementName nm v fc) = (if nm = ascii ''Wx'' then parameterName v else weather fc)"
  by (simp add: switch_elementName_def ascii_def)

lemma switch_rain:
  "rain (switch_elementName nm v fc) =
     (if nm = ascii ''PoP'' then parameterName v @ ascii ''%'' else rain fc)"
  by (simp add: switch_elementName_def ascii_def)

lemma switch_minTemp:
  "minTemp (switch_elementName nm v fc) =
     (if nm = ascii ''MinT'' then parameterName v @ [0x00B0] @ ascii ''C'' else minTemp fc)"
  by (simp add: switch_elementName_def ascii_def)

lemma switch_maxTemp:
  "maxTemp (switch_elementName nm v fc) =
     (if nm = ascii ''MaxT'' then parameterName v @ [0x00B0] @ ascii ''C'' else maxTemp fc)"
  by (simp add: switch_elementName_def ascii_def)

lemma switch_comfort:
  "comfort (switch_elementName nm v fc) = (if nm = ascii ''CI'' then parameterName v else comfort fc)"
  by (simp add: switch_elementName_def ascii_def)

lemma switch_windSpeed:
  "windSpeed (switch_elementName nm v fc) =
     (if nm = ascii ''WS'' then parameterName v else windSpeed fc)"
  by (simp add: switch_elementName_def ascii_def)

lemma switch_unrecognized:
  "nm \<notin> {ascii ''Wx'', ascii ''PoP'', ascii ''MinT'', ascii ''MaxT'', ascii ''CI'', ascii ''WS''}
   \<Longrightarrow> switch_elementName nm v fc = fc"
  by (simp add: switch_elementName_def)

text \<open>After all elements: a field keeps its initial value when no element carries its
  name, and otherwise holds the value of the last element that does.\<close>

lemma fold_times:
  "startTime (fold (assign i) es fc) = startTime fc"
  "endTime (fold (assign i) es fc) = endTime fc"
  by (induction es arbitrary: fc) (simp_all add: switch_times)

lemma fold_weather:
  "weather (fold (assign i) es fc) =
     (if tagged (ascii ''Wx'') es = [] then weather fc
      else parameterName (parameter (time (last (tagged (ascii ''Wx'') es)) ! i)))"
  by (induction es rule: rev_induct) (simp_all add: switch_weather)

lemma fold_rain:
  "rain (fold (assign i) es fc) =
     (if tagged (ascii ''PoP'') es = [] then rain fc
      else parameterName (parameter (time (last (tagged (ascii ''PoP'') es)) ! i)) @ ascii ''%'')"
  by (induction es rule: rev_induct) (simp_all add: switch_rain)

lemma fold_minTemp:
  "minTemp (fold (assign i) es fc) =
     (if tagged (ascii ''MinT'') es = [] then minTemp fc
      else parameterName (parameter (time (last (tagged (ascii ''MinT'') es)) ! i))
             @ [0x00B0] @ ascii ''C'')"
  by (induction es rule: rev_induct) (simp_all add: switch_minTemp)

lemma fold_maxTemp:
  "maxTemp (fold (assign i) es fc) =
     (if tagged (ascii ''MaxT'') es = [] then maxTemp fc
      else parameterName (parameter (time (last (tagged (ascii ''MaxT'') es)) ! i))
             @ [0x00B0] @ ascii ''C'')"
  by (induction es rule: rev_induct) (simp_all add: switch_maxTemp)

lemma fold_comfort:
  "comfort (fold (assign i) es fc) =
     (if tagged (ascii ''CI'') es = [] then comfort fc
      else parameterName (parameter (time (last (tagged (ascii ''CI'') es)) ! i)))"
  by (induction es rule: rev_induct) (simp_all add: switch_comfort)

lemma fold_windSpeed:
  "windSpeed (fold (assign i) es fc) =
     (if tagged (ascii ''WS'') es = [] then windSpeed fc
      else parameterName (parameter (time (last (tagged (ascii ''WS'') es)) ! i)))"
  by (induction es rule: rev_induct) (simp_all add: switch_windSpeed)

lemma tagged_distinct:
  "distinct (map elementName es) \<Longrightarrow> e \<in> set es \<Longrightarrow> tagged (elementName e) es = [e]"
  by (induction es) (auto simp: filter_empty_conv image_iff)

lemma new_forecast_parameter [simp]: "new_forecast (t\<lparr>parameter := p\<rparr>) = new_forecast t"
  by (simp add: new_forecast_def)

lemma fold_assign_update:
  assumes "k < length es" and "assign j e' = assign j (es ! k)"
  shows "fold (assign j) (es[k := e']) fc = fold (assign j) es fc"
proof -
  have "map (assign j) (es[k := e']) = map (assign j) es"
    using assms by (simp add: map_update list_update_same_conv)
  then have "fold (\<lambda>h. h) (map (assign j) (es[k := e'])) fc = fold (\<lambda>h. h) (map (assign j) es) fc"
    by simp
  then show ?thesis by (simp add: fold_map comp_def del: fold_simps)
qed

section \<open>Normalization as a whole\<close>

lemma normalize_aligned:
  assumes "weatherElement loc = e0 # rest"
    and "\<forall>e\<in>set (weatherElement loc). length (time e0) \<le> length (time e)"
  shows "normalize loc =
     Inr (map (\<lambda>j. fold (assign j) (weatherElement loc) (new_forecast (time e0 ! j)))
            [0..<length (time e0)])"
  using assms for_loop_ok [of e0 rest "length (time e0)" 0 "[]"]
  by (simp add: normalize_def del: for_loop.simps fold_simps)

lemma normalize_short:
  assumes "weatherElement loc = e0 # rest"
    and "e \<in> set (weatherElement loc)" and "length (time e) < length (time e0)"
  shows "normalize loc = Inl TypeError"
  using assms for_loop_fail [of e "weatherElement loc" 0 "length (time e0)" "[]"]
  by (simp add: normalize_def del: for_loop.simps)

lemma normalize_fails_iff:
  "normalize loc = Inl TypeError \<longleftrightarrow>
     weatherElement loc = [] \<or>
     (\<exists>e\<in>set (weatherElement loc). length (time e) < length (time (hd (weatherElement loc))))"
proof (cases "weatherElement loc")
  case Nil
  then show ?thesis by (simp add: normalize_def)
next
  case (Cons e0 rest)
  show ?thesis
  proof (cases "\<exists>e\<in>set (weatherElement loc). length (time e) < length (time e0)")
    case True
    then obtain e where "e \<in> set (weatherElement loc)" "length (time e) < length (time e0)"
      by blast
    from normalize_short [OF Cons this] True Cons show ?thesis by simp
  next
    case False
    then have "\<forall>e\<in>set (weatherElement loc). length (time e0) \<le> length (time e)"
      by (simp add: not_less)
    from normalize_aligned [OF Cons this] False Cons show ?thesis by simp
  qed
qed

lemma normalize_error: "normalize loc = Inl x \<Longrightarrow> x = TypeError"
proof (cases "normalize loc = Inl TypeError")
  case True
  then show "normalize loc = Inl x \<Longrightarrow> x = TypeError" by simp
next
  case False
  then obtain e0 rest where es: "weatherElement loc = e0 # rest"
    and "\<not> (\<exists>e\<in>set (weatherElement loc). length (time e) < length (time e0))"
    by (cases "weatherElement loc") (auto simp: normalize_fails_iff)
  then have "\<forall>e\<in>set (weatherElement loc). length (time e0) \<le> length (time e)"
    by (simp add: not_less)
  from normalize_aligned [OF es this]
  show "normalize loc = Inl x \<Longrightarrow> x = TypeError" by simp
qed

lemma normalize_equal_lengths:
  assumes "weatherElement loc = e0 # rest"
    and "\<forall>e\<in>set (weatherElement loc). length (time e) = N"
  shows "normalize loc =
     Inr (map (\<lambda>j. fold (assign j) (weatherElement loc) (new_forecast (time e0 ! j))) [0..<N])"
proof -
  have N: "length (time e0) = N" using assms by simp
  have "\<forall>e\<in>set (weatherElement loc). length (time e0) \<le> length (time e)"
    using assms by simp
  from normalize_aligned [OF assms(1) this] N show ?thesis by simp
qed

section \<open>The city lookup\<close>

lemma CITY_MAP_codes_distinct: "distinct (map fst CITY_MAP)"
  by (simp add: CITY_MAP_def ascii_eq_iff)

lemma CITY_MAP_names_nonempty: "map_of CITY_MAP c = Some n \<Longrightarrow> n \<noteq> []"
  by (drule map_of_SomeD) (auto simp: CITY_MAP_def)

lemma CITY_MAP_get_own: "map_of CITY_MAP c = Some n \<Longrightarrow> CITY_MAP_get c = Str n"
  by (simp add: CITY_MAP_get_def)

lemma CITY_MAP_get_configured: "(c, n) \<in> set CITY_MAP \<Longrightarrow> CITY_MAP_get c = Str n"
  using CITY_MAP_codes_distinct by (simp add: CITY_MAP_get_def)

lemma CITY_MAP_get_own_truthy: "map_of CITY_MAP c = Some n \<Longrightarrow> truthy (CITY_MAP_get c)"
  by (simp add: CITY_MAP_get_own CITY_MAP_names_nonempty)

lemma taipei: "CITY_MAP_get (ascii ''taipei'') = Str [0x81FA, 0x5317, 0x5E02]"
  by (simp add: CITY_MAP_get_def CITY_MAP_def ascii_eq_iff)

lemma atlantis: "CITY_MAP_get (ascii ''atlantis'') = Undefined"
  by (simp add: CITY_MAP_get_def CITY_MAP_def Object_prototype_def ascii_eq_iff)

text \<open>The lookup compares code units: other spellings of a configured code are not found.\<close>

lemma lookup_case_sensitive:
  "CITY_MAP_get (ascii ''Taipei'') = Undefined"
  "CITY_MAP_get (ascii ''TAIPEI'') = Undefined"
  "CITY_MAP_get (ascii ''taipei '') = Undefined"
  by (simp_all add: CITY_MAP_get_def CITY_MAP_def Object_prototype_def ascii_eq_iff)

text \<open>A string that names neither an own property of \<^verbatim>\<open>CITY_MAP\<close> nor a property of
  \<^verbatim>\<open>Object.prototype\<close> is answered with status 400, without an outbound call.\<close>

lemma unknown_code_rejected:
  assumes "map_of CITY_MAP c = None" and "map_of Object_prototype c = None"
  shows "getCityWeather api_key axios_get c = (Inr \<lparr>status = 400, body = invalid_city_body c\<rparr>, [])"
  using assms by (simp add: getCityWeather_def try_block_def CITY_MAP_get_def)

section \<open>The handler\<close>

lemma catch_TypeError: "catch_block TypeError = Inr \<lparr>status = 500, body = server_error_body\<rparr>"
  by (simp add: catch_block_def)

text \<open>An upstream error whose body is \<^verbatim>\<open>null\<close>: the \<^verbatim>\<open>catch\<close> block throws and the
  handler sends no response.\<close>

lemma null_error_body_no_response:
  "getCityWeather (Some (ascii ''key'')) upstream_null_body (ascii ''taipei'') =
     (Inl TypeError, [forecast_request (ascii ''key'') (Str [0x81FA, 0x5317, 0x5E02])])"
  by (simp add: getCityWeather_def try_block_def Let_def taipei ascii_Nil_iff
        upstream_null_body_def catch_block_def)

lemma getCityWeather_success:
  assumes "truthy (CITY_MAP_get c)" and "k \<noteq> []"
    and "axios_get (forecast_request k (CITY_MAP_get c)) = Inr recs"
    and "location recs = loc # others" and "normalize loc = Inr fs"
  shows "getCityWeather (Some k) axios_get c =
     (Inr \<lparr>status = 200,
       body = \<lparr>success = Some True, error = None, message = None,
               data = Some \<lparr>city = locationName loc, cityCode = c,
                            updateTime = datasetDescription recs, forecasts = fs\<rparr>\<rparr>\<rparr>,
      [forecast_request k (CITY_MAP_get c)])"
  using assms by (simp add: getCityWeather_def try_block_def Let_def)

section \<open>Claims\<close>

subsection \<open>C1: malformed location records\<close>

text \<open>
  C1 as stated fails on the code: the handler never compares lengths, it fails only when
  a property read hits \<^verbatim>\<open>undefined\<close>. A record whose second element has more time
  entries than the first normalizes to one forecast per entry of the first element.
\<close>

theorem longer_series_normalizes:
  "length (time (weatherElement longer_location ! 1)) \<noteq>
     length (time (weatherElement longer_location ! 0)) \<and>
   normalize longer_location =
     Inr [\<lparr>startTime = ascii ''2024-05-01 06:00:00'', endTime = ascii ''2024-05-01 18:00:00'',
           weather = ascii ''sunny'', rain = ascii ''20'' @ ascii ''%'', minTemp = [], maxTemp = [],
           comfort = [], windSpeed = []\<rparr>]"
  by (simp add: normalize_def forEach_callback_def switch_elementName_def new_forecast_def ev)

text \<open>
  C1, amended. Normalization throws (a \<^verbatim>\<open>TypeError\<close>) exactly when the record has zero
  weather elements or some element's time series is shorter than the first element's; an
  element with a longer series does not make it fail. When it throws, the handler answers
  with the generic status 500 body, which carries no \<^verbatim>\<open>data\<close>: no forecast is emitted.
\<close>

theorem malformed_record_fails:
  "(normalize loc = Inl TypeError \<longleftrightarrow>
      weatherElement loc = [] \<or>
      (\<exists>e\<in>set (weatherElement loc). length (time e) < length (time (hd (weatherElement loc))))) \<and>
   (normalize loc = Inl TypeError \<longrightarrow> truthy (CITY_MAP_get c) \<longrightarrow> k \<noteq> [] \<longrightarrow>
      axios_get (forecast_request k (CITY_MAP_get c)) = Inr recs \<longrightarrow> location recs = loc # others \<longrightarrow>
      fst (getCityWeather (Some k) axios_get c) = Inr \<lparr>status = 500, body = server_error_body\<rparr> \<and>
      data server_error_body = None)"
proof (intro conjI impI)
  assume "normalize loc = Inl TypeError" "truthy (CITY_MAP_get c)" "k \<noteq> []"
    "axios_get (forecast_request k (CITY_MAP_get c)) = Inr recs" "location recs = loc # others"
  then show "fst (getCityWeather (Some k) axios_get c) = Inr \<lparr>status = 500, body = server_error_body\<rparr>"
    by (simp add: getCityWeather_def try_block_def catch_TypeError Let_def)
qed (simp_all add: normalize_fails_iff server_error_body_def)

theorem malformed_record_fails_witness:
  "normalize empty_location = Inl TypeError \<and>
   normalize shorter_location = Inl TypeError \<and>
   fst (getCityWeather (Some (ascii ''key'')) (upstream_returns [shorter_location]) (ascii ''taipei''))
     = Inr \<lparr>status = 500, body = server_error_body\<rparr>"
  using malformed_record_fails [of empty_location]
    malformed_record_fails [of shorter_location "ascii ''taipei''" "ascii ''key''"
      "upstream_returns [shorter_location]"
      "\<lparr>datasetDescription = ascii ''36h forecast'', location = [shorter_location]\<rparr>" "[]"]
  by (simp add: ev taipei upstream_returns_def)

subsection \<open>C2: city lookup\<close>

text \<open>
  C2, evaluated at the code \<^verbatim>\<open>constructor\<close>. The string is not among the 22 configured
  codes, yet \<^verbatim>\<open>CITY_MAP[cityCode]\<close> finds the built-in function \<^verbatim>\<open>Object\<close> on the
  prototype, which is truthy: the handler skips the status 400 branch, calls the upstream
  with that function as location name and, when the upstream returns no location,
  answers 404.
\<close>

theorem constructor_code_not_rejected:
  "map_of CITY_MAP (ascii ''constructor'') = None \<and>
   CITY_MAP_get (ascii ''constructor'') = NativeFunction (ascii ''Object'') \<and>
   getCityWeather (Some (ascii ''key'')) (upstream_returns []) (ascii ''constructor'') =
     (Inr \<lparr>status = 404, body = no_data_body (NativeFunction (ascii ''Object''))\<rparr>,
      [forecast_request (ascii ''key'') (NativeFunction (ascii ''Object''))])"
  by (simp add: getCityWeather_def try_block_def CITY_MAP_get_def CITY_MAP_def
        Object_prototype_def upstream_returns_def Let_def ascii_eq_iff ascii_Nil_iff)

subsection \<open>C3: the six recognized elements\<close>

text \<open>
  C3. For a location record whose elements all have \<open>N\<close> time entries and are named
  exactly Wx, PoP, MinT, MaxT, CI and WS (each once), normalization returns \<open>N\<close>
  forecasts; in the \<open>i\<close>-th, \<^verbatim>\<open>rain\<close> is the PoP element's \<open>i\<close>-th parameter name
  followed by a percent sign, and \<^verbatim>\<open>minTemp\<close> and \<^verbatim>\<open>maxTemp\<close> are the MinT and
  MaxT elements' \<open>i\<close>-th parameter names followed by a degree sign and C.
\<close>

theorem normalize_six_tags:
  assumes aligned: "\<forall>e\<in>set (weatherElement loc). length (time e) = N"
    and tags: "distinct (map elementName (weatherElement loc))"
      "set (map elementName (weatherElement loc)) =
         {ascii ''Wx'', ascii ''PoP'', ascii ''MinT'', ascii ''MaxT'', ascii ''CI'', ascii ''WS''}"
  shows "\<exists>fs. normalize loc = Inr fs \<and> length fs = N \<and>
           (\<forall>i<N. \<forall>e\<in>set (weatherElement loc).
              (elementName e = ascii ''PoP'' \<longrightarrow>
                 rain (fs ! i) = parameterName (parameter (time e ! i)) @ ascii ''%'') \<and>
              (elementName e = ascii ''MinT'' \<longrightarrow>
                 minTemp (fs ! i) = parameterName (parameter (time e ! i)) @ [0x00B0] @ ascii ''C'') \<and>
              (elementName e = ascii ''MaxT'' \<longrightarrow>
                 maxTemp (fs ! i) = parameterName (parameter (time e ! i)) @ [0x00B0] @ ascii ''C''))"
proof -
  from tags(2) have "weatherElement loc \<noteq> []" by auto
  then obtain e0 rest where es: "weatherElement loc = e0 # rest"
    by (cases "weatherElement loc") auto
  note nz = normalize_equal_lengths [OF es aligned]
  have one: "tagged (elementName e) (weatherElement loc) = [e]"
    if "e \<in> set (weatherElement loc)" for e
    using tagged_distinct [OF tags(1) that] .
  show ?thesis
  proof (intro exI conjI allI impI ballI)
    show "normalize loc = Inr (map (\<lambda>j. fold (assign j) (weatherElement loc)
            (new_forecast (time e0 ! j))) [0..<N])"
      by (rule nz)
  next
    fix i e
    assume "i < N" "e \<in> set (weatherElement loc)" "elementName e = ascii ''PoP''"
    then show "rain (map (\<lambda>j. fold (assign j) (weatherElement loc)
            (new_forecast (time e0 ! j))) [0..<N] ! i) =
          parameterName (parameter (time e ! i)) @ ascii ''%''"
      using one [of e] by (simp add: fold_rain del: fold_simps)
  next
    fix i e
    assume "i < N" "e \<in> set (weatherElement loc)" "elementName e = ascii ''MinT''"
    then show "minTemp (map (\<lambda>j. fold (assign j) (weatherElement loc)
            (new_forecast (time e0 ! j))) [0..<N] ! i) =
          parameterName (parameter (time e ! i)) @ [0x00B0] @ ascii ''C''"
      using one [of e] by (simp add: fold_minTemp del: fold_simps)
  next
    fix i e
    assume "i < N" "e \<in> set (weatherElement loc)" "elementName e = ascii ''MaxT''"
    then show "maxTemp (map (\<lambda>j. fold (assign j) (weatherElement loc)
            (new_forecast (time e0 ! j))) [0..<N] ! i) =
          parameterName (parameter (time e ! i)) @ [0x00B0] @ ascii ''C''"
      using one [of e] by (simp add: fold_maxTemp del: fold_simps)
  qed simp
qed

theorem normalize_six_tags_witness:
  "map (\<lambda>e. length (time e)) (weatherElement example_location) = [2, 2, 2, 2, 2, 2] \<and>
   map elementName (weatherElement example_location) =
     [ascii ''Wx'', ascii ''PoP'', ascii ''MinT'', ascii ''CI'', ascii ''MaxT'', ascii ''WS''] \<and>
   (\<exists>fs. normalize example_location = Inr fs \<and> length fs = 2 \<and>
      rain (fs ! 0) = ascii ''20'' @ ascii ''%'' \<and>
      minTemp (fs ! 0) = ascii ''15'' @ [0x00B0] @ ascii ''C'' \<and>
      maxTemp (fs ! 0) = ascii ''22'' @ [0x00B0] @ ascii ''C'' \<and>
      rain (fs ! 1) = ascii ''30'' @ ascii ''%'' \<and>
      minTemp (fs ! 1) = ascii ''14'' @ [0x00B0] @ ascii ''C'' \<and>
      maxTemp (fs ! 1) = ascii ''19'' @ [0x00B0] @ ascii ''C'')"
proof -
  have a: "\<forall>e\<in>set (weatherElement example_location). length (time e) = 2"
    by (simp add: ev)
  have d: "distinct (map elementName (weatherElement example_location))"
    by (simp add: ev)
  have s: "set (map elementName (weatherElement example_location)) =
      {ascii ''Wx'', ascii ''PoP'', ascii ''MinT'', ascii ''MaxT'', ascii ''CI'', ascii ''WS''}"
    by (auto simp: example_location_def)
  from normalize_six_tags [OF a d s] obtain fs
    where fs: "normalize example_location = Inr fs" "length fs = 2"
      and each: "\<And>i e. i < 2 \<Longrightarrow> e \<in> set (weatherElement example_location) \<Longrightarrow>
        (elementName e = ascii ''PoP'' \<longrightarrow>
           rain (fs ! i) = parameterName (parameter (time e ! i)) @ ascii ''%'') \<and>
        (elementName e = ascii ''MinT'' \<longrightarrow>
           minTemp (fs ! i) = parameterName (parameter (time e ! i)) @ [0x00B0] @ ascii ''C'') \<and>
        (elementName e = ascii ''MaxT'' \<longrightarrow>
           maxTemp (fs ! i) = parameterName (parameter (time e ! i)) @ [0x00B0] @ ascii ''C'')"
    by blast
  have "rain (fs ! 0) = ascii ''20'' @ ascii ''%''" "rain (fs ! 1) = ascii ''30'' @ ascii ''%''"
    using each [of 0 "weatherElement example_location ! 1"]
      each [of 1 "weatherElement example_location ! 1"]
    by (simp_all add: ev)
  moreover have "minTemp (fs ! 0) = ascii ''15'' @ [0x00B0] @ ascii ''C''"
    "minTemp (fs ! 1) = ascii ''14'' @ [0x00B0] @ ascii ''C''"
    using each [of 0 "weatherElement example_location ! 2"]
      each [of 1 "weatherElement example_location ! 2"]
    by (simp_all add: ev)
  moreover have "maxTemp (fs ! 0) = ascii ''22'' @ [0x00B0] @ ascii ''C''"
    "maxTemp (fs ! 1) = ascii ''19'' @ [0x00B0] @ ascii ''C''"
    using each [of 0 "weatherElement example_location ! 4"]
      each [of 1 "weatherElement example_location ! 4"]
    by (simp_all add: ev)
  moreover have "map (\<lambda>e. length (time e)) (weatherElement example_location) = [2, 2, 2, 2, 2, 2]"
    "map elementName (weatherElement example_location) =
     [ascii ''Wx'', ascii ''PoP'', ascii ''MinT'', ascii ''CI'', ascii ''MaxT'', ascii ''WS'']"
    by (simp_all add: ev)
  ultimately show ?thesis using fs by blast
qed

subsection \<open>C4: missing credential\<close>

text \<open>
  C4. When the lookup of the city code succeeds and the credential is unset or empty, the
  handler answers with status 500 and the misconfiguration body, and the list of
  outbound calls is empty.
\<close>

theorem misconfigured_no_outbound_call:
  assumes "truthy (CITY_MAP_get c)" and "api_key = None \<or> api_key = Some []"
  shows "getCityWeather api_key axios_get c = (Inr \<lparr>status = 500, body = misconfigured_body\<rparr>, [])"
  using assms by (auto simp: getCityWeather_def try_block_def)

theorem misconfigured_no_outbound_call_witness:
  "truthy (CITY_MAP_get (ascii ''taipei'')) \<and>
   getCityWeather None upstream_unreachable (ascii ''taipei'') =
     (Inr \<lparr>status = 500, body = misconfigured_body\<rparr>, []) \<and>
   getCityWeather (Some []) upstream_unreachable (ascii ''taipei'') =
     (Inr \<lparr>status = 500, body = misconfigured_body\<rparr>, [])"
proof -
  have t: "truthy (CITY_MAP_get (ascii ''taipei''))" by (simp add: taipei)
  have "getCityWeather None upstream_unreachable (ascii ''taipei'') =
      (Inr \<lparr>status = 500, body = misconfigured_body\<rparr>, [])"
    by (rule misconfigured_no_outbound_call [OF t]) simp
  moreover have "getCityWeather (Some []) upstream_unreachable (ascii ''taipei'') =
      (Inr \<lparr>status = 500, body = misconfigured_body\<rparr>, [])"
    by (rule misconfigured_no_outbound_call [OF t]) simp
  ultimately show ?thesis using t by simp
qed

subsection \<open>C5: status of each failure\<close>

text \<open>
  C5 as stated fails on the code where the upstream's error message is the empty string:
  \<^verbatim>\<open>error.response.data.message || ...\<close> replaces it by the default text, so the
  response does not carry the upstream message verbatim.
\<close>

theorem empty_upstream_message_replaced:
  "fst (getCityWeather (Some (ascii ''key'')) upstream_empty_message (ascii ''taipei'')) =
     Inr \<lparr>status = 503, body = upstream_error_body default_upstream_message\<rparr> \<and>
   message (upstream_error_body default_upstream_message) = Some default_upstream_message \<and>
   default_upstream_message \<noteq> []"
  by (simp add: getCityWeather_def try_block_def Let_def taipei ascii_Nil_iff
        upstream_empty_message_def catch_block_def upstream_error_body_def
        default_upstream_message_def)

text \<open>
  C5, amended. The status is 400 when the lookup finds nothing; 500 when the credential is
  missing, when the upstream cannot be reached and when normalization throws; 404 when the
  upstream returns no location and for an unmatched path. When the upstream answers with
  a non-success status and an error body that is not \<^verbatim>\<open>null\<close>, a response is sent
  with the upstream's status, and with the upstream's message when that message is
  non-empty.
\<close>

theorem status_mirrors_failure:
  "(\<not> truthy (CITY_MAP_get c) \<longrightarrow>
      fst (getCityWeather api_key axios_get c) =
        Inr \<lparr>status = 400, body = invalid_city_body c\<rparr>) \<and>
   (truthy (CITY_MAP_get c) \<and> (api_key = None \<or> api_key = Some []) \<longrightarrow>
      fst (getCityWeather api_key axios_get c) =
        Inr \<lparr>status = 500, body = misconfigured_body\<rparr>) \<and>
   (truthy (CITY_MAP_get c) \<and> api_key = Some k \<and> k \<noteq> [] \<and>
    axios_get (forecast_request k (CITY_MAP_get c)) = Inl (AxiosError (Some u)) \<and>
    response_data u = Body msg \<longrightarrow>
      (\<exists>r. fst (getCityWeather api_key axios_get c) = Inr r \<and>
           status r = response_status u)) \<and>
   (truthy (CITY_MAP_get c) \<and> api_key = Some k \<and> k \<noteq> [] \<and>
    axios_get (forecast_request k (CITY_MAP_get c)) = Inl (AxiosError (Some u)) \<and>
    response_data u = Body (Some m) \<and> m \<noteq> [] \<longrightarrow>
      fst (getCityWeather api_key axios_get c) =
        Inr \<lparr>status = response_status u, body = upstream_error_body m\<rparr> \<and>
      message (upstream_error_body m) = Some m) \<and>
   (truthy (CITY_MAP_get c) \<and> api_key = Some k \<and> k \<noteq> [] \<and>
    axios_get (forecast_request k (CITY_MAP_get c)) = Inl (AxiosError None) \<longrightarrow>
      fst (getCityWeather api_key axios_get c) =
        Inr \<lparr>status = 500, body = server_error_body\<rparr>) \<and>
   (truthy (CITY_MAP_get c) \<and> api_key = Some k \<and> k \<noteq> [] \<and>
    axios_get (forecast_request k (CITY_MAP_get c)) = Inr recs \<and> location recs = [] \<longrightarrow>
      fst (getCityWeather api_key axios_get c) =
        Inr \<lparr>status = 404, body = no_data_body (CITY_MAP_get c)\<rparr>) \<and>
   (truthy (CITY_MAP_get c) \<and> api_key = Some k \<and> k \<noteq> [] \<and>
    axios_get (forecast_request k (CITY_MAP_get c)) = Inr recs \<and>
    location recs = loc # others \<and> isl (normalize loc) \<longrightarrow>
      fst (getCityWeather api_key axios_get c) =
        Inr \<lparr>status = 500, body = server_error_body\<rparr>) \<and>
   status not_found_handler = 404"
proof (intro conjI impI)
  show "status not_found_handler = 404" by (simp add: not_found_handler_def)
next
  assume "truthy (CITY_MAP_get c) \<and> api_key = Some k \<and> k \<noteq> [] \<and>
    axios_get (forecast_request k (CITY_MAP_get c)) = Inr recs \<and>
    location recs = loc # others \<and> isl (normalize loc)"
  moreover from this obtain x where "normalize loc = Inl x" by (cases "normalize loc") auto
  moreover from this have "x = TypeError" by (rule normalize_error)
  ultimately show "fst (getCityWeather api_key axios_get c) =
      Inr \<lparr>status = 500, body = server_error_body\<rparr>"
    by (simp add: getCityWeather_def try_block_def catch_TypeError Let_def)
qed (auto simp: getCityWeather_def try_block_def catch_block_def Let_def upstream_error_body_def)

theorem status_mirrors_failure_witness:
  "fst (getCityWeather None upstream_unreachable (ascii ''atlantis'')) =
     Inr \<lparr>status = 400, body = invalid_city_body (ascii ''atlantis'')\<rparr> \<and>
   fst (getCityWeather None upstream_unreachable (ascii ''taipei'')) =
     Inr \<lparr>status = 500, body = misconfigured_body\<rparr> \<and>
   (\<exists>r. fst (getCityWeather (Some (ascii ''key'')) upstream_empty_message (ascii ''taipei'')) = Inr r \<and>
        status r = 503) \<and>
   fst (getCityWeather (Some (ascii ''key'')) upstream_unauthorized (ascii ''taipei'')) =
     Inr \<lparr>status = 401, body = upstream_error_body (ascii ''Unauthorized'')\<rparr> \<and>
   fst (getCityWeather (Some (ascii ''key'')) upstream_unreachable (ascii ''taipei'')) =
     Inr \<lparr>status = 500, body = server_error_body\<rparr> \<and>
   fst (getCityWeather (Some (ascii ''key'')) (upstream_returns []) (ascii ''taipei'')) =
     Inr \<lparr>status = 404, body = no_data_body (Str [0x81FA, 0x5317, 0x5E02])\<rparr> \<and>
   fst (getCityWeather (Some (ascii ''key'')) (upstream_returns [shorter_location])
     (ascii ''taipei'')) = Inr \<lparr>status = 500, body = server_error_body\<rparr>"
proof -
  have short: "isl (normalize shorter_location)"
    by (simp add: normalize_def forEach_callback_def switch_elementName_def new_forecast_def ev)
  note inst = status_mirrors_failure [where api_key = "Some (ascii ''key'')" and k = "ascii ''key''"
      and c = "ascii ''taipei''"]
  show ?thesis
    using status_mirrors_failure [of "ascii ''atlantis''" None upstream_unreachable]
      status_mirrors_failure [of "ascii ''taipei''" None upstream_unreachable]
      inst [where axios_get = upstream_empty_message
        and u = "\<lparr>response_status = 503, response_data = Body (Some [])\<rparr>" and msg = "Some []"]
      inst [where axios_get = upstream_unauthorized
        and u = "\<lparr>response_status = 401, response_data = Body (Some (ascii ''Unauthorized''))\<rparr>"
        and m = "ascii ''Unauthorized''"]
      inst [where axios_get = upstream_unreachable]
      inst [where axios_get = "upstream_returns []"
        and recs = "\<lparr>datasetDescription = ascii ''36h forecast'', location = []\<rparr>"]
      inst [where axios_get = "upstream_returns [shorter_location]"
        and recs = "\<lparr>datasetDescription = ascii ''36h forecast'', location = [shorter_location]\<rparr>"
        and loc = shorter_location and others = "[]"]
      short
    by (simp add: taipei atlantis ascii_Nil_iff upstream_unauthorized_def upstream_unreachable_def
          upstream_empty_message_def upstream_returns_def)
qed

subsection \<open>C6: no location in the payload\<close>

text \<open>
  C6. When the city code is one of the configured codes, the credential is non-empty and
  the upstream answers with an empty \<^verbatim>\<open>location\<close> array, the handler answers with
  status 404 after its one outbound call, and the message contains the Chinese name the
  code maps to.
\<close>

theorem no_location_404:
  assumes "map_of CITY_MAP c = Some name" and "k \<noteq> []"
    and "axios_get (forecast_request k (Str name)) = Inr recs" and "location recs = []"
  shows "getCityWeather (Some k) axios_get c =
           (Inr \<lparr>status = 404, body = no_data_body (Str name)\<rparr>, [forecast_request k (Str name)]) \<and>
         message (no_data_body (Str name)) =
           Some ([0x7121, 0x6CD5, 0x53D6, 0x5F97] @ ascii '' '' @ name @ ascii '' '' @
             [0x7684, 0x5929, 0x6C23, 0x8CC7, 0x6599, 0xFF0C, 0x8ACB, 0x78BA, 0x8A8D]
             @ ascii '' CWA API '' @ [0x4F86, 0x6E90, 0x662F, 0x5426, 0x6B63, 0x5E38, 0x3002])"
  using assms CITY_MAP_names_nonempty [OF assms(1)]
  by (simp add: getCityWeather_def try_block_def CITY_MAP_get_own no_data_body_def)

theorem no_location_404_witness:
  "map_of CITY_MAP (ascii ''hualien'') = Some [0x82B1, 0x84EE, 0x7E23] \<and>
   getCityWeather (Some (ascii ''key'')) (upstream_returns []) (ascii ''hualien'') =
     (Inr \<lparr>status = 404, body = no_data_body (Str [0x82B1, 0x84EE, 0x7E23])\<rparr>,
      [forecast_request (ascii ''key'') (Str [0x82B1, 0x84EE, 0x7E23])]) \<and>
   message (no_data_body (Str [0x82B1, 0x84EE, 0x7E23])) =
     Some ([0x7121, 0x6CD5, 0x53D6, 0x5F97] @ ascii '' '' @ [0x82B1, 0x84EE, 0x7E23] @ ascii '' '' @
       [0x7684, 0x5929, 0x6C23, 0x8CC7, 0x6599, 0xFF0C, 0x8ACB, 0x78BA, 0x8A8D]
       @ ascii '' CWA API '' @ [0x4F86, 0x6E90, 0x662F, 0x5426, 0x6B63, 0x5E38, 0x3002])"
proof -
  have m: "map_of CITY_MAP (ascii ''hualien'') = Some [0x82B1, 0x84EE, 0x7E23]"
    by (simp add: CITY_MAP_def ascii_eq_iff)
  have k: "ascii ''key'' \<noteq> []" by (simp add: ascii_Nil_iff)
  have u: "upstream_returns [] (forecast_request (ascii ''key'') (Str [0x82B1, 0x84EE, 0x7E23])) =
      Inr \<lparr>datasetDescription = ascii ''36h forecast'', location = []\<rparr>"
    by (simp add: upstream_returns_def)
  from no_location_404 [where axios_get = "upstream_returns []", OF m k u] m
  show ?thesis by simp
qed

subsection \<open>C7: fields of missing elements\<close>

text \<open>
  C7. For a non-empty location record whose elements all have \<open>N\<close> time entries, every
  forecast has the empty string in each of the six fields whose element name does not
  occur in the record. (A forecast is a record of eight strings: no field is absent or
  null.)
\<close>

theorem missing_element_empty_string:
  assumes "weatherElement loc \<noteq> []"
    and "\<forall>e\<in>set (weatherElement loc). length (time e) = N"
  shows "\<exists>fs. normalize loc = Inr fs \<and> length fs = N \<and>
           (\<forall>i<N.
              (ascii ''Wx'' \<notin> elementName ` set (weatherElement loc) \<longrightarrow> weather (fs ! i) = []) \<and>
              (ascii ''PoP'' \<notin> elementName ` set (weatherElement loc) \<longrightarrow> rain (fs ! i) = []) \<and>
              (ascii ''MinT'' \<notin> elementName ` set (weatherElement loc) \<longrightarrow> minTemp (fs ! i) = []) \<and>
              (ascii ''MaxT'' \<notin> elementName ` set (weatherElement loc) \<longrightarrow> maxTemp (fs ! i) = []) \<and>
              (ascii ''CI'' \<notin> elementName ` set (weatherElement loc) \<longrightarrow> comfort (fs ! i) = []) \<and>
              (ascii ''WS'' \<notin> elementName ` set (weatherElement loc) \<longrightarrow> windSpeed (fs ! i) = []))"
proof -
  from assms(1) obtain e0 rest where es: "weatherElement loc = e0 # rest"
    by (cases "weatherElement loc") auto
  have none: "tagged t (weatherElement loc) = []"
    if "t \<notin> elementName ` set (weatherElement loc)" for t
    using that by (auto simp: filter_empty_conv)
  show ?thesis
    by (simp add: normalize_equal_lengths [OF es assms(2)]
          fold_weather fold_rain fold_minTemp fold_maxTemp fold_comfort fold_windSpeed
          none new_forecast_def del: fold_simps)
qed

theorem missing_element_empty_string_witness:
  "map elementName (weatherElement partial_location) = [ascii ''Wx'', ascii ''PoP''] \<and>
   map (\<lambda>e. length (time e)) (weatherElement partial_location) = [2, 2] \<and>
   (\<exists>fs. normalize partial_location = Inr fs \<and> length fs = 2 \<and>
      minTemp (fs ! 0) = [] \<and> maxTemp (fs ! 0) = [] \<and> comfort (fs ! 0) = [] \<and>
      windSpeed (fs ! 0) = [] \<and>
      minTemp (fs ! 1) = [] \<and> maxTemp (fs ! 1) = [] \<and> comfort (fs ! 1) = [] \<and>
      windSpeed (fs ! 1) = [])"
proof -
  have n: "weatherElement partial_location \<noteq> []"
    and a: "\<forall>e\<in>set (weatherElement partial_location). length (time e) = 2"
    by (simp_all add: ev)
  from missing_element_empty_string [OF n a] obtain fs
    where fs: "normalize partial_location = Inr fs" "length fs = 2"
      and each: "\<And>i. i < 2 \<Longrightarrow>
        (ascii ''Wx'' \<notin> elementName ` set (weatherElement partial_location) \<longrightarrow> weather (fs ! i) = []) \<and>
        (ascii ''PoP'' \<notin> elementName ` set (weatherElement partial_location) \<longrightarrow> rain (fs ! i) = []) \<and>
        (ascii ''MinT'' \<notin> elementName ` set (weatherElement partial_location) \<longrightarrow> minTemp (fs ! i) = []) \<and>
        (ascii ''MaxT'' \<notin> elementName ` set (weatherElement partial_location) \<longrightarrow> maxTemp (fs ! i) = []) \<and>
        (ascii ''CI'' \<notin> elementName ` set (weatherElement partial_location) \<longrightarrow> comfort (fs ! i) = []) \<and>
        (ascii ''WS'' \<notin> elementName ` set (weatherElement partial_location) \<longrightarrow> windSpeed (fs ! i) = [])"
    by blast
  have "minTemp (fs ! 0) = []" "maxTemp (fs ! 0) = []" "comfort (fs ! 0) = []"
    "windSpeed (fs ! 0) = []" "minTemp (fs ! 1) = []" "maxTemp (fs ! 1) = []"
    "comfort (fs ! 1) = []" "windSpeed (fs ! 1) = []"
    using each [of 0] each [of 1] by (simp_all add: ev)
  moreover have "map elementName (weatherElement partial_location) = [ascii ''Wx'', ascii ''PoP'']"
    "map (\<lambda>e. length (time e)) (weatherElement partial_location) = [2, 2]"
    by (simp_all add: ev)
  ultimately show ?thesis using fs by blast
qed

subsection \<open>C8: unrecognized elements\<close>

text \<open>
  C8. For a non-empty location record whose elements all have \<open>N\<close> time entries,
  normalization succeeds, and an element whose name is none of the six recognized names
  has no influence on the result: replacing all its parameter values by any others
  leaves every forecast unchanged.
\<close>

theorem unrecognized_element_ignored:
  assumes nonempty: "weatherElement loc \<noteq> []"
    and aligned: "\<forall>e\<in>set (weatherElement loc). length (time e) = N"
    and k: "k < length (weatherElement loc)"
    and tag: "elementName (weatherElement loc ! k) \<notin>
      {ascii ''Wx'', ascii ''PoP'', ascii ''MinT'', ascii ''MaxT'', ascii ''CI'', ascii ''WS''}"
  shows "(\<exists>fs. normalize loc = Inr fs \<and> length fs = N) \<and>
    normalize (loc\<lparr>weatherElement := (weatherElement loc)
       [k := (weatherElement loc ! k)
          \<lparr>time := map (\<lambda>t. t\<lparr>parameter := g t\<rparr>) (time (weatherElement loc ! k))\<rparr>]\<rparr>)
     = normalize loc"
proof -
  define es where "es = weatherElement loc"
  define e' where "e' = (es ! k)\<lparr>time := map (\<lambda>t. t\<lparr>parameter := g t\<rparr>) (time (es ! k))\<rparr>"
  define loc' where "loc' = loc\<lparr>weatherElement := es[k := e']\<rparr>"
  from nonempty obtain e0 rest where es: "weatherElement loc = e0 # rest"
    by (cases "weatherElement loc") auto
  note nz = normalize_equal_lengths [OF es aligned]
  have len': "length (time e') = N"
    using aligned k by (simp add: e'_def es_def)
  have aligned': "\<forall>e\<in>set (weatherElement loc'). length (time e) = N"
  proof
    fix e assume "e \<in> set (weatherElement loc')"
    then have "e \<in> insert e' (set es)"
      using set_update_subset_insert [of es k e'] by (auto simp: loc'_def)
    then show "length (time e) = N" using len' aligned by (auto simp: es_def)
  qed
  have es': "weatherElement loc' = hd (es[k := e']) # tl (es[k := e'])"
    using nonempty by (simp add: loc'_def es_def)
  note nz' = normalize_equal_lengths [OF es' aligned']
  have first: "new_forecast (time (hd (es[k := e'])) ! j) = new_forecast (time e0 ! j)"
    if "j < N" for j
  proof (cases k)
    case 0
    with that aligned es show ?thesis by (simp add: e'_def es_def)
  next
    case (Suc k')
    with es show ?thesis by (simp add: es_def)
  qed
  have same: "assign j e' = assign j (es ! k)" for j
    using tag by (intro ext) (simp add: e'_def es_def switch_unrecognized)
  have k': "k < length es" using k by (simp add: es_def)
  have step: "fold (assign j) (es[k := e']) (new_forecast (time (hd (es[k := e'])) ! j)) =
      fold (assign j) es (new_forecast (time e0 ! j))" if "j < N" for j
    using first [OF that] fold_assign_update [OF k' same] by simp
  have "weatherElement loc' = es[k := e']" by (simp add: loc'_def)
  with nz' have "normalize loc' =
      Inr (map (\<lambda>j. fold (assign j) (es[k := e'])
             (new_forecast (time (hd (es[k := e'])) ! j))) [0..<N])"
    by simp
  also have "\<dots> = Inr (map (\<lambda>j. fold (assign j) es (new_forecast (time e0 ! j))) [0..<N])"
    using step by simp
  also have "\<dots> = normalize loc"
    using nz by (simp add: es_def)
  finally have "normalize loc' = normalize loc" .
  then show ?thesis
    by (simp add: nz loc'_def e'_def es_def)
qed

theorem unrecognized_element_ignored_witness:
  "elementName (weatherElement extended_location ! 1) = ascii ''UVI'' \<and>
   (\<exists>fs. normalize extended_location = Inr fs \<and> length fs = 2) \<and>
   normalize changed_location = normalize extended_location"
  using unrecognized_element_ignored [of extended_location 2 1 "\<lambda>t. \<lparr>parameterName = ascii ''99''\<rparr>"]
  by (simp add: ev changed_location_def)

subsection \<open>C9: order of the forecasts\<close>

text \<open>
  C9. For a location record whose elements all have \<open>N\<close> time entries, normalization
  returns \<open>N\<close> forecasts, and the \<open>i\<close>-th forecast has the \<^verbatim>\<open>startTime\<close> and
  \<^verbatim>\<open>endTime\<close> of the first element's \<open>i\<close>-th time entry: the upstream order is kept.
\<close>

theorem normalize_startTime_endTime:
  assumes "weatherElement loc = e0 # rest"
    and "\<forall>e\<in>set (weatherElement loc). length (time e) = N"
  shows "\<exists>fs. normalize loc = Inr fs \<and> length fs = N \<and>
           (\<forall>i<N. startTime (fs ! i) = startTime (time e0 ! i) \<and>
                   endTime (fs ! i) = endTime (time e0 ! i))"
  by (simp add: normalize_equal_lengths [OF assms] fold_times new_forecast_def
        del: fold_simps)

theorem normalize_startTime_endTime_witness:
  "map (\<lambda>e. length (time e)) (weatherElement example_location) = [2, 2, 2, 2, 2, 2] \<and>
   (\<exists>fs. normalize example_location = Inr fs \<and> length fs = 2 \<and>
      startTime (fs ! 0) = ascii ''2024-05-01 06:00:00'' \<and>
      endTime (fs ! 0) = ascii ''2024-05-01 18:00:00'' \<and>
      startTime (fs ! 1) = ascii ''2024-05-01 18:00:00'' \<and>
      endTime (fs ! 1) = ascii ''2024-05-02 06:00:00'')"
proof -
  have a: "\<forall>e\<in>set (weatherElement example_location). length (time e) = 2"
    by (simp add: ev)
  have c: "weatherElement example_location =
      hd (weatherElement example_location) # tl (weatherElement example_location)"
    by (simp add: ev)
  from normalize_startTime_endTime [OF c a] obtain fs
    where fs: "normalize example_location = Inr fs" "length fs = 2"
      and each: "\<And>i. i < 2 \<Longrightarrow>
        startTime (fs ! i) = startTime (time (hd (weatherElement example_location)) ! i) \<and>
        endTime (fs ! i) = endTime (time (hd (weatherElement example_location)) ! i)"
    by blast
  have "startTime (fs ! 0) = ascii ''2024-05-01 06:00:00''"
    "endTime (fs ! 0) = ascii ''2024-05-01 18:00:00''"
    "startTime (fs ! 1) = ascii ''2024-05-01 18:00:00''"
    "endTime (fs ! 1) = ascii ''2024-05-02 06:00:00''"
    using each [of 0] each [of 1] by (simp_all add: ev)
  moreover have "map (\<lambda>e. length (time e)) (weatherElement example_location) = [2, 2, 2, 2, 2, 2]"
    by (simp add: ev)
  ultimately show ?thesis using fs by blast
qed

subsection \<open>C10: repeated element names\<close>

text \<open>
  C10. For a non-empty location record whose elements all have \<open>N\<close> time entries and any
  \<open>i < N\<close>: when one or more elements carry a recognized name, the corresponding field
  of the \<open>i\<close>-th forecast is written from the last such element of the array.
\<close>

theorem last_duplicate_wins:
  assumes "weatherElement loc \<noteq> []"
    and "\<forall>e\<in>set (weatherElement loc). length (time e) = N"
    and "i < N"
  shows "\<exists>fs. normalize loc = Inr fs \<and>
     (tagged (ascii ''Wx'') (weatherElement loc) \<noteq> [] \<longrightarrow>
        weather (fs ! i) =
          parameterName (parameter (time (last (tagged (ascii ''Wx'') (weatherElement loc))) ! i))) \<and>
     (tagged (ascii ''PoP'') (weatherElement loc) \<noteq> [] \<longrightarrow>
        rain (fs ! i) =
          parameterName (parameter (time (last (tagged (ascii ''PoP'') (weatherElement loc))) ! i))
            @ ascii ''%'') \<and>
     (tagged (ascii ''MinT'') (weatherElement loc) \<noteq> [] \<longrightarrow>
        minTemp (fs ! i) =
          parameterName (parameter (time (last (tagged (ascii ''MinT'') (weatherElement loc))) ! i))
            @ [0x00B0] @ ascii ''C'') \<and>
     (tagged (ascii ''MaxT'') (weatherElement loc) \<noteq> [] \<longrightarrow>
        maxTemp (fs ! i) =
          parameterName (parameter (time (last (tagged (ascii ''MaxT'') (weatherElement loc))) ! i))
            @ [0x00B0] @ ascii ''C'') \<and>
     (tagged (ascii ''CI'') (weatherElement loc) \<noteq> [] \<longrightarrow>
        comfort (fs ! i) =
          parameterName (parameter (time (last (tagged (ascii ''CI'') (weatherElement loc))) ! i))) \<and>
     (tagged (ascii ''WS'') (weatherElement loc) \<noteq> [] \<longrightarrow>
        windSpeed (fs ! i) =
          parameterName (parameter (time (last (tagged (ascii ''WS'') (weatherElement loc))) ! i)))"
proof -
  from assms(1) obtain e0 rest where es: "weatherElement loc = e0 # rest"
    by (cases "weatherElement loc") auto
  show ?thesis
    using assms(3)
    by (simp add: normalize_equal_lengths [OF es assms(2)]
          fold_weather fold_rain fold_minTemp fold_maxTemp fold_comfort fold_windSpeed
          del: fold_simps)
qed

theorem last_duplicate_wins_witness:
  "map elementName (weatherElement duplicate_location) = [ascii ''PoP'', ascii ''Wx'', ascii ''PoP''] \<and>
   map (\<lambda>e. parameterName (parameter (time e ! 0))) (weatherElement duplicate_location) =
     [ascii ''10'', ascii ''sunny'', ascii ''70''] \<and>
   (\<exists>fs. normalize duplicate_location = Inr fs \<and> rain (fs ! 0) = ascii ''70'' @ ascii ''%'')"
  using last_duplicate_wins [of duplicate_location 2 0]
  by (simp add: ev) blast

end
